theory Spec2Isabelle
  imports Complex_Main
begin

section \<open>The gripper command interface \<open>MoveIt2Gripper\<close>\<close>

text \<open>
  A shallow embedding of \<^verbatim>\<open>pymoveit2/moveit2_gripper.py\<close>. The class \<open>MoveIt2Gripper\<close>
  is a record of the attributes its methods read and write; a method takes the object and
  returns its outcome together with the object as the method leaves it, also when the
  method raises (an exception does not undo the assignments made before it).

  Python's \<open>float\<close> is modelled by \<^typ>\<open>real\<close>: finite values with exact arithmetic
  (the rounding of floating-point operations, infinities and NaN are not modelled).
  Python's \<open>int\<close> is \<^typ>\<open>int\<close>, a list index is a \<^typ>\<open>nat\<close>.
\<close>

subsection \<open>Data\<close>

datatype error = ValueError | IndexError | AttributeError | ConfigurationMismatch

text \<open>The message \<open>sensor_msgs/JointState\<close>: parallel sequences of names and positions.\<close>

record JointState =
  name :: "string list"
  position :: "real list"

text \<open>
  Modelled from the spec: the trajectory message built in \<^verbatim>\<open>moveit2.py\<close> is missing. A
  fixed trajectory has a single waypoint, reached at \<open>time_from_start\<close>, which is carried
  as whole seconds and nanoseconds.
\<close>

record JointTrajectory =
  trajectory_joint_names :: "string list"
  point_positions :: "real list"
  time_from_start_sec :: int
  time_from_start_nanosec :: int

text \<open>
  Modelled from the spec: the goal types of \<^verbatim>\<open>moveit2.py\<close> are missing. A goal is either
  planned (a target joint configuration and the group identifier) or precomputed (a fixed
  trajectory).
\<close>

datatype Goal =
    PlannedGoal "real list" string
  | FixedTrajectoryGoal JointTrajectory

text \<open>
  Modelled from the spec: the execution tracking of \<open>MoveIt2\<close> is missing; these are the
  spec's values of \<open>ExecutionState\<close>.
\<close>

datatype ExecutionState =
  Idle | Dispatching | Executing | Succeeded | Rejected | Aborted | Canceled

text \<open>
  An attribute that holds either the method inherited from \<open>MoveIt2\<close> or Python's
  \<open>None\<close>.
\<close>

datatype attribute = InheritedMethod | PyNone

text \<open>
  The object. The fields from \<open>joint_names\<close> to \<open>compute_ik\<close> belong to the base class:
  \<open>joint_names\<close> and \<open>joint_state\<close> are the properties the classifier reads,
  \<open>execution_state\<close> is the spec's \<open>ExecutionState\<close>, \<open>dispatched\<close> lists the goals sent
  to the execution backend and \<open>resets\<close> the configurations sent through the reset
  channel, oldest first. The other fields are the private attributes of \<open>MoveIt2Gripper\<close>.
\<close>

record MoveIt2Gripper =
  joint_names :: "string list"
  joint_state :: "JointState option"
  group_name :: string
  ignore_new_calls_while_executing :: bool
  execution_state :: ExecutionState
  dispatched :: "Goal list"
  resets :: "(real list \<times> bool) list"
  move_to_pose :: attribute
  set_pose_goal :: attribute
  set_position_goal :: attribute
  set_orientation_goal :: attribute
  compute_fk :: attribute
  compute_ik :: attribute
  open_gripper_joint_positions :: "real list"
  closed_gripper_joint_positions :: "real list"
  skip_planning :: bool
  open_dummy_trajectory_goal :: "Goal option"
  close_dummy_trajectory_goal :: "Goal option"
  open_tolerance :: "real list"
  gripper_joint_indices :: "nat list option"

subsection \<open>The base class \<open>MoveIt2\<close> and the helpers of \<open>moveit2.py\<close>\<close>

text \<open>
  Modelled from the spec: \<open>init_joint_state\<close> of \<^verbatim>\<open>moveit2.py\<close> is missing. It pairs the
  joint names with the target positions.
\<close>

definition init_joint_state :: "string list \<Rightarrow> real list \<Rightarrow> JointState" where
  "init_joint_state names positions = \<lparr>name = names, position = positions\<rparr>"

text \<open>
  Modelled from the spec: \<open>init_dummy_joint_trajectory_from_state\<close> of \<^verbatim>\<open>moveit2.py\<close> is
  missing. It is the spec's \<open>build_fixed_goal\<close>: a single-waypoint trajectory reaching the
  target positions at the given duration, the duration carried as its whole-unit and its
  fractional-remainder component.
\<close>

definition init_dummy_joint_trajectory_from_state ::
    "JointState \<Rightarrow> int \<Rightarrow> int \<Rightarrow> JointTrajectory" where
  "init_dummy_joint_trajectory_from_state js duration_sec duration_nanosec =
     \<lparr>trajectory_joint_names = name js,
      point_positions = position js,
      time_from_start_sec = duration_sec,
      time_from_start_nanosec = duration_nanosec\<rparr>"

text \<open>
  Modelled from the spec: \<open>init_follow_joint_trajectory_goal\<close> of \<^verbatim>\<open>moveit2.py\<close> is
  missing. It wraps the trajectory as a goal for the execution backend.
\<close>

definition init_follow_joint_trajectory_goal :: "JointTrajectory \<Rightarrow> Goal" where
  "init_follow_joint_trajectory_goal joint_trajectory = FixedTrajectoryGoal joint_trajectory"

text \<open>
  Modelled from the spec: the constructor of \<open>MoveIt2\<close> is missing. It stores the joint
  names, the group name and the admission flag; no joint snapshot has been received, no
  command is in flight (\<open>Idle\<close>), nothing has been sent, and the pose and kinematics
  operations are the inherited methods. The attributes of the subclass are not set yet;
  the values given to them here are all overwritten by \<open>MoveIt2Gripper.__init__\<close>, except
  the two precomputed goals, which stay absent unless skip-planning is on.
\<close>

definition MoveIt2_init :: "string list \<Rightarrow> string \<Rightarrow> bool \<Rightarrow> MoveIt2Gripper" where
  "MoveIt2_init names gripper_group_name ignore_calls =
     \<lparr>joint_names = names,
      joint_state = None,
      group_name = gripper_group_name,
      ignore_new_calls_while_executing = ignore_calls,
      execution_state = Idle,
      dispatched = [],
      resets = [],
      move_to_pose = InheritedMethod,
      set_pose_goal = InheritedMethod,
      set_position_goal = InheritedMethod,
      set_orientation_goal = InheritedMethod,
      compute_fk = InheritedMethod,
      compute_ik = InheritedMethod,
      open_gripper_joint_positions = [],
      closed_gripper_joint_positions = [],
      skip_planning = False,
      open_dummy_trajectory_goal = None,
      close_dummy_trajectory_goal = None,
      open_tolerance = [],
      gripper_joint_indices = None\<rparr>"

text \<open>
  Modelled from the spec: the execution gate of \<open>MoveIt2\<close> is missing. \<open>admit\<close> drops a
  request exactly when the admission flag is set and a command is being dispatched or
  executed, and admits it otherwise.
\<close>

definition admit :: "bool \<Rightarrow> ExecutionState \<Rightarrow> bool" where
  "admit ignore_calls current_state =
     (\<not> (ignore_calls \<and> (current_state = Dispatching \<or> current_state = Executing)))"

text \<open>
  Modelled from the spec: the action dispatcher of \<open>MoveIt2\<close> is missing. \<open>dispatch\<close>
  sends the goal to the execution backend and moves the execution state to
  \<open>Dispatching\<close>, from whatever state it was in.
\<close>

definition dispatch :: "Goal \<Rightarrow> MoveIt2Gripper \<Rightarrow> MoveIt2Gripper" where
  "dispatch goal s = s\<lparr>execution_state := Dispatching, dispatched := dispatched s @ [goal]\<rparr>"

text \<open>
  Modelled from the spec: \<open>MoveIt2._send_goal_async_follow_joint_trajectory\<close> is missing.
  A public call passes the gate, then the dispatcher sends the precomputed goal; with
  \<open>wait_until_response = False\<close> it returns right after submission.
\<close>

definition send_goal_async_follow_joint_trajectory ::
    "Goal \<Rightarrow> MoveIt2Gripper \<Rightarrow> error option \<times> MoveIt2Gripper" where
  "send_goal_async_follow_joint_trajectory goal s =
     (if admit (ignore_new_calls_while_executing s) (execution_state s)
      then (None, dispatch goal s)
      else (None, s))"

text \<open>
  Modelled from the spec: the goal builder of \<open>MoveIt2\<close> is missing. \<open>build_planned_goal\<close>
  wraps the target configuration and the group identifier, and fails with
  \<open>ConfigurationMismatch\<close> unless there is one target per joint name.
\<close>

definition build_planned_goal :: "real list \<Rightarrow> MoveIt2Gripper \<Rightarrow> error + Goal" where
  "build_planned_goal target_positions s =
     (if length target_positions = length (joint_names s)
      then Inr (PlannedGoal target_positions (group_name s))
      else Inl ConfigurationMismatch)"

text \<open>
  Modelled from the spec: \<open>MoveIt2.move_to_configuration\<close> is missing. A public call
  passes the gate, then the planned goal is built, then the dispatcher sends it.
\<close>

definition move_to_configuration ::
    "real list \<Rightarrow> MoveIt2Gripper \<Rightarrow> error option \<times> MoveIt2Gripper" where
  "move_to_configuration joint_positions s =
     (if admit (ignore_new_calls_while_executing s) (execution_state s)
      then (case build_planned_goal joint_positions s of
              Inl e \<Rightarrow> (Some e, s)
            | Inr goal \<Rightarrow> (None, dispatch goal s))
      else (None, s))"

text \<open>
  Modelled from the spec: \<open>MoveIt2.reset_controller\<close> is missing. A public call passes
  the gate, then the joint configuration is assigned through the direct reset channel,
  which is distinct from the execution action path and leaves the execution state alone.
\<close>

definition reset_controller ::
    "real list \<Rightarrow> bool \<Rightarrow> MoveIt2Gripper \<Rightarrow> error option \<times> MoveIt2Gripper" where
  "reset_controller joint_positions sync s =
     (if admit (ignore_new_calls_while_executing s) (execution_state s)
      then (None, s\<lparr>resets := resets s @ [(joint_positions, sync)]\<rparr>)
      else (None, s))"

subsection \<open>Construction\<close>

text \<open>\<open>__del_redundant_attributes\<close>: six assignments of \<open>None\<close>.\<close>

definition del_redundant_attributes :: "MoveIt2Gripper \<Rightarrow> MoveIt2Gripper" where
  "del_redundant_attributes s =
     s\<lparr>move_to_pose := PyNone,
       set_pose_goal := PyNone,
       set_position_goal := PyNone,
       set_orientation_goal := PyNone,
       compute_fk := PyNone,
       compute_ik := PyNone\<rparr>"

text \<open>Python's \<open>int(x)\<close> on a float truncates towards zero.\<close>

definition py_int :: "real \<Rightarrow> int" where
  "py_int x = (if 0 \<le> x then \<lfloor>x\<rfloor> else \<lceil>x\<rceil>)"

text \<open>
  The local variables \<open>duration_sec\<close> and \<open>duration_nanosec\<close> of \<open>__init__\<close>, as functions
  of \<open>skip_planning_fixed_motion_duration\<close>: \<open>math.floor\<close> of the duration, and \<open>int\<close> of
  \<open>10e8\<close> times what is left of it.
\<close>

definition duration_sec_of :: "real \<Rightarrow> int" where
  "duration_sec_of skip_planning_fixed_motion_duration =
     \<lfloor>skip_planning_fixed_motion_duration\<rfloor>"

text \<open>The literal \<open>10e8\<close> is ten times the eighth power of ten.\<close>

definition duration_nanosec_of :: "real \<Rightarrow> int" where
  "duration_nanosec_of skip_planning_fixed_motion_duration =
     py_int (10 * 10 ^ 8 *
       (skip_planning_fixed_motion_duration
          - of_int (duration_sec_of skip_planning_fixed_motion_duration)))"

text \<open>
  The goal that \<open>__init__\<close> precomputes for a vector of joint positions, through the three
  helpers.
\<close>

definition dummy_trajectory_goal :: "string list \<Rightarrow> real list \<Rightarrow> real \<Rightarrow> Goal" where
  "dummy_trajectory_goal gripper_joint_names joint_positions duration =
     init_follow_joint_trajectory_goal
       (init_dummy_joint_trajectory_from_state
          (init_joint_state gripper_joint_names joint_positions)
          (duration_sec_of duration)
          (duration_nanosec_of duration))"

text \<open>
  \<open>__init__\<close>, its arguments in the order of the source (the node, the callback group,
  \<open>execute_via_moveit\<close> and the action name only route messages and are left out).
\<close>

definition init ::
    "string list \<Rightarrow> real list \<Rightarrow> real list \<Rightarrow> string \<Rightarrow> bool \<Rightarrow> bool \<Rightarrow> real
       \<Rightarrow> error + MoveIt2Gripper" where
  "init gripper_joint_names open_positions closed_positions gripper_group_name
        ignore_calls skip skip_planning_fixed_motion_duration =
     (if length gripper_joint_names \<noteq> length open_positions
         \<or> length gripper_joint_names \<noteq> length closed_positions
      then Inl ValueError
      else
        let s0 = MoveIt2_init gripper_joint_names gripper_group_name ignore_calls;
            s1 = del_redundant_attributes s0;
            s2 = s1\<lparr>open_gripper_joint_positions := open_positions,
                    closed_gripper_joint_positions := closed_positions,
                    skip_planning := skip\<rparr>;
            s3 = (if skip
                  then s2\<lparr>open_dummy_trajectory_goal :=
                             Some (dummy_trajectory_goal gripper_joint_names open_positions
                                     skip_planning_fixed_motion_duration),
                           close_dummy_trajectory_goal :=
                             Some (dummy_trajectory_goal gripper_joint_names closed_positions
                                     skip_planning_fixed_motion_duration)\<rparr>
                  else s2)
        in Inr (s3\<lparr>open_tolerance :=
                      map (\<lambda>(o_pos, c_pos). 0.1 * \<bar>o_pos - c_pos\<bar>)
                          (zip open_positions closed_positions),
                    gripper_joint_indices := None\<rparr>))"

subsection \<open>The classifier\<close>

text \<open>\<open>list.index(x)\<close>: the first position of \<open>x\<close>; absent, Python raises \<open>ValueError\<close>.\<close>

fun index_of :: "'a list \<Rightarrow> 'a \<Rightarrow> nat option" where
  "index_of [] x = None"
| "index_of (y # ys) x = (if y = x then Some 0 else map_option Suc (index_of ys x))"

text \<open>
  The loop that fills \<open>__gripper_joint_indices\<close>: the list is assigned empty first and
  grows by one index per joint name, so a failing lookup leaves the indices found so far.
\<close>

fun find_indices :: "string list \<Rightarrow> string list \<Rightarrow> nat list \<Rightarrow> error option \<times> nat list" where
  "find_indices snapshot_names [] acc = (None, acc)"
| "find_indices snapshot_names (joint_name # rest) acc =
     (case index_of snapshot_names joint_name of
        None \<Rightarrow> (Some ValueError, acc)
      | Some k \<Rightarrow> find_indices snapshot_names rest (acc @ [k]))"

text \<open>
  The loop over \<open>enumerate(__gripper_joint_indices)\<close>, from local index \<open>i\<close> on. Reading
  a list out of range raises \<open>IndexError\<close>; the first joint out of tolerance returns
  \<open>False\<close> before any later joint is read.
\<close>

fun check_joints :: "real list \<Rightarrow> real list \<Rightarrow> real list \<Rightarrow> nat \<Rightarrow> nat list \<Rightarrow> error + bool" where
  "check_joints pos open_pos tol i [] = Inr True"
| "check_joints pos open_pos tol i (k # ks) =
     (if k < length pos \<and> i < length open_pos \<and> i < length tol
      then (if \<bar>pos ! k - open_pos ! i\<bar> > tol ! i
            then Inr False
            else check_joints pos open_pos tol (Suc i) ks)
      else Inl IndexError)"

text \<open>
  The property \<open>is_open\<close>. Without a snapshot it answers \<open>True\<close>. The indices are looked
  up on the first call that sees a snapshot and kept; the cached ones are used as they
  are on every later call.
\<close>

definition is_open :: "MoveIt2Gripper \<Rightarrow> (error + bool) \<times> MoveIt2Gripper" where
  "is_open s =
     (case joint_state s of
        None \<Rightarrow> (Inr True, s)
      | Some js \<Rightarrow>
          (case gripper_joint_indices s of
             None \<Rightarrow>
               (case find_indices (name js) (joint_names s) [] of
                  (Some e, idxs) \<Rightarrow> (Inl e, s\<lparr>gripper_joint_indices := Some idxs\<rparr>)
                | (None, idxs) \<Rightarrow>
                    (check_joints (position js) (open_gripper_joint_positions s)
                       (open_tolerance s) 0 idxs,
                     s\<lparr>gripper_joint_indices := Some idxs\<rparr>))
           | Some idxs \<Rightarrow>
               (check_joints (position js) (open_gripper_joint_positions s)
                  (open_tolerance s) 0 idxs, s)))"

text \<open>The property \<open>is_closed\<close>: \<open>not self.is_open\<close>.\<close>

definition is_closed :: "MoveIt2Gripper \<Rightarrow> (error + bool) \<times> MoveIt2Gripper" where
  "is_closed s =
     (case is_open s of
        (Inl e, s1) \<Rightarrow> (Inl e, s1)
      | (Inr b, s1) \<Rightarrow> (Inr (\<not> b), s1))"

subsection \<open>The commands\<close>

definition open_without_planning :: "MoveIt2Gripper \<Rightarrow> error option \<times> MoveIt2Gripper" where
  "open_without_planning s =
     (case open_dummy_trajectory_goal s of
        None \<Rightarrow> (Some AttributeError, s)
      | Some goal \<Rightarrow> send_goal_async_follow_joint_trajectory goal s)"

definition close_without_planning :: "MoveIt2Gripper \<Rightarrow> error option \<times> MoveIt2Gripper" where
  "close_without_planning s =
     (case close_dummy_trajectory_goal s of
        None \<Rightarrow> (Some AttributeError, s)
      | Some goal \<Rightarrow> send_goal_async_follow_joint_trajectory goal s)"

text \<open>The part of \<open>open\<close> and of \<open>close\<close> after the skip-if-noop test.\<close>

definition perform_open :: "MoveIt2Gripper \<Rightarrow> error option \<times> MoveIt2Gripper" where
  "perform_open s =
     (if skip_planning s then open_without_planning s
      else move_to_configuration (open_gripper_joint_positions s) s)"

definition perform_close :: "MoveIt2Gripper \<Rightarrow> error option \<times> MoveIt2Gripper" where
  "perform_close s =
     (if skip_planning s then close_without_planning s
      else move_to_configuration (closed_gripper_joint_positions s) s)"

text \<open>
  \<open>open\<close> and \<open>close\<close> (named \<open>open_gripper\<close>, \<open>close_gripper\<close>: \<open>open\<close> is taken).
  \<open>skip_if_noop and self.is_open\<close> does not evaluate the classifier when
  \<open>skip_if_noop\<close> is false.
\<close>

definition open_gripper :: "bool \<Rightarrow> MoveIt2Gripper \<Rightarrow> error option \<times> MoveIt2Gripper" where
  "open_gripper skip_if_noop s =
     (if skip_if_noop
      then (case is_open s of
              (Inl e, s1) \<Rightarrow> (Some e, s1)
            | (Inr True, s1) \<Rightarrow> (None, s1)
            | (Inr False, s1) \<Rightarrow> perform_open s1)
      else perform_open s)"

definition close_gripper :: "bool \<Rightarrow> MoveIt2Gripper \<Rightarrow> error option \<times> MoveIt2Gripper" where
  "close_gripper skip_if_noop s =
     (if skip_if_noop
      then (case is_closed s of
              (Inl e, s1) \<Rightarrow> (Some e, s1)
            | (Inr True, s1) \<Rightarrow> (None, s1)
            | (Inr False, s1) \<Rightarrow> perform_close s1)
      else perform_close s)"

definition toggle :: "MoveIt2Gripper \<Rightarrow> error option \<times> MoveIt2Gripper" where
  "toggle s =
     (case is_open s of
        (Inl e, s1) \<Rightarrow> (Some e, s1)
      | (Inr True, s1) \<Rightarrow> close_gripper False s1
      | (Inr False, s1) \<Rightarrow> open_gripper False s1)"

text \<open>\<open>__call__\<close>.\<close>

definition call :: "MoveIt2Gripper \<Rightarrow> error option \<times> MoveIt2Gripper" where
  "call s = toggle s"

definition reset_open :: "bool \<Rightarrow> MoveIt2Gripper \<Rightarrow> error option \<times> MoveIt2Gripper" where
  "reset_open sync s = reset_controller (open_gripper_joint_positions s) sync s"

definition reset_closed :: "bool \<Rightarrow> MoveIt2Gripper \<Rightarrow> error option \<times> MoveIt2Gripper" where
  "reset_closed sync s = reset_controller (closed_gripper_joint_positions s) sync s"

subsection \<open>Events of a lifetime\<close>

text \<open>
  Modelled from the spec: the joint-state callback of \<open>MoveIt2\<close> is missing. Each feedback
  update replaces the latest snapshot wholesale.
\<close>

definition joint_state_callback :: "JointState \<Rightarrow> MoveIt2Gripper \<Rightarrow> MoveIt2Gripper" where
  "joint_state_callback msg s = s\<lparr>joint_state := Some msg\<rparr>"

text \<open>
  Modelled from the spec: the goal callbacks of \<open>MoveIt2\<close> are missing. The backend
  reports acceptance or rejection of a goal, and later its completion. Acceptance takes
  \<open>Dispatching\<close> to \<open>Executing\<close>, rejection takes \<open>Dispatching\<close> to \<open>Rejected\<close>, and a
  completion takes \<open>Executing\<close> to \<open>Succeeded\<close>, \<open>Aborted\<close> or \<open>Canceled\<close>; no transition
  is skipped.
\<close>

datatype BackendEvent = Accept | Reject | Success | Failure | Cancellation

definition on_backend_event :: "BackendEvent \<Rightarrow> MoveIt2Gripper \<Rightarrow> MoveIt2Gripper" where
  "on_backend_event ev s =
     (case (ev, execution_state s) of
        (Accept, Dispatching) \<Rightarrow> s\<lparr>execution_state := Executing\<rparr>
      | (Reject, Dispatching) \<Rightarrow> s\<lparr>execution_state := Rejected\<rparr>
      | (Success, Executing) \<Rightarrow> s\<lparr>execution_state := Succeeded\<rparr>
      | (Failure, Executing) \<Rightarrow> s\<lparr>execution_state := Aborted\<rparr>
      | (Cancellation, Executing) \<Rightarrow> s\<lparr>execution_state := Canceled\<rparr>
      | _ \<Rightarrow> s)"

text \<open>The public operations of the gripper, as values.\<close>

datatype Command =
  Open bool | Close bool | Toggle | Call | ResetOpen bool | ResetClosed bool

fun run_command :: "Command \<Rightarrow> MoveIt2Gripper \<Rightarrow> error option \<times> MoveIt2Gripper" where
  "run_command (Open skip_if_noop) s = open_gripper skip_if_noop s"
| "run_command (Close skip_if_noop) s = close_gripper skip_if_noop s"
| "run_command Toggle s = toggle s"
| "run_command Call s = call s"
| "run_command (ResetOpen sync) s = reset_open sync s"
| "run_command (ResetClosed sync) s = reset_closed sync s"

text \<open>
  What happens to an object after its construction: the caller invokes a public
  operation (and goes on with the object after an exception), a joint snapshot arrives,
  or the backend reports on the goal.
\<close>

datatype Event = Invoke Command | Snapshot JointState | Backend BackendEvent

fun step :: "Event \<Rightarrow> MoveIt2Gripper \<Rightarrow> MoveIt2Gripper" where
  "step (Invoke c) s = snd (run_command c s)"
| "step (Snapshot msg) s = joint_state_callback msg s"
| "step (Backend ev) s = on_backend_event ev s"

fun run :: "Event list \<Rightarrow> MoveIt2Gripper \<Rightarrow> MoveIt2Gripper" where
  "run [] s = s"
| "run (e # es) s = run es (step e s)"

subsection \<open>Predicates of the statements\<close>

text \<open>
  The configuration vectors have one entry per configured joint, and in skip-planning
  mode the two precomputed goals exist. The constructor establishes this and no event
  changes it.
\<close>

definition consistent :: "MoveIt2Gripper \<Rightarrow> bool" where
  "consistent s \<longleftrightarrow>
     length (open_gripper_joint_positions s) = length (joint_names s)
     \<and> length (closed_gripper_joint_positions s) = length (joint_names s)
     \<and> length (open_tolerance s) = length (joint_names s)
     \<and> (skip_planning s \<longrightarrow>
          open_dummy_trajectory_goal s \<noteq> None \<and> close_dummy_trajectory_goal s \<noteq> None)"

text \<open>
  The cached indices, once present, have one entry per configured joint. This holds
  after the constructor and after every call of the classifier that returns; a lookup
  that raises leaves a shorter list behind.
\<close>

definition indices_complete :: "MoveIt2Gripper \<Rightarrow> bool" where
  "indices_complete s \<longleftrightarrow>
     (case gripper_joint_indices s of
        None \<Rightarrow> True
      | Some idxs \<Rightarrow> length idxs = length (joint_names s))"

text \<open>
  A snapshot the classifier can read: on the first lookup every configured joint name
  occurs in it and its positions are parallel to its names; with cached indices, every
  cached index has a position.
\<close>

definition snapshot_readable :: "MoveIt2Gripper \<Rightarrow> JointState \<Rightarrow> bool" where
  "snapshot_readable s js \<longleftrightarrow>
     (case gripper_joint_indices s of
        None \<Rightarrow> set (joint_names s) \<subseteq> set (name js) \<and> length (name js) \<le> length (position js)
      | Some idxs \<Rightarrow> list_all (\<lambda>k. k < length (position js)) idxs)"



text \<open>The six pose and kinematics attributes are all \<open>None\<close>.\<close>

definition redundant_attributes_are_None :: "MoveIt2Gripper \<Rightarrow> bool" where
  "redundant_attributes_are_None s \<longleftrightarrow>
     move_to_pose s = PyNone \<and> set_pose_goal s = PyNone \<and> set_position_goal s = PyNone
     \<and> set_orientation_goal s = PyNone \<and> compute_fk s = PyNone \<and> compute_ik s = PyNone"

subsection \<open>Example objects\<close>

text \<open>
  A gripper of two joints, as the constructor returns it for the names \<open>j1\<close>, \<open>j2\<close>, the
  open positions \<open>0\<close>, \<open>0\<close>, the closed positions \<open>1\<close>, \<open>2\<close> and the defaults of the other
  arguments.
\<close>

definition two_joint_gripper :: MoveIt2Gripper where
  "two_joint_gripper =
     \<lparr>joint_names = [''j1'', ''j2''],
      joint_state = None,
      group_name = ''LHand'',
      ignore_new_calls_while_executing = False,
      execution_state = Idle,
      dispatched = [],
      resets = [],
      move_to_pose = PyNone,
      set_pose_goal = PyNone,
      set_position_goal = PyNone,
      set_orientation_goal = PyNone,
      compute_fk = PyNone,
      compute_ik = PyNone,
      open_gripper_joint_positions = [0, 0],
      closed_gripper_joint_positions = [1, 2],
      skip_planning = False,
      open_dummy_trajectory_goal = None,
      close_dummy_trajectory_goal = None,
      open_tolerance = [0.1, 0.2],
      gripper_joint_indices = None\<rparr>"

text \<open>Snapshots of three joints, the configured ones last and in reverse order.\<close>

definition snapshot_open :: JointState where
  "snapshot_open = \<lparr>name = [''base'', ''j2'', ''j1''], position = [7, 0.2, 0.05]\<rparr>"

definition snapshot_closed :: JointState where
  "snapshot_closed = \<lparr>name = [''base'', ''j2'', ''j1''], position = [7, 0.1, 0.5]\<rparr>"

text \<open>A snapshot in which the configured joint \<open>j2\<close> does not occur.\<close>

definition snapshot_without_j2 :: JointState where
  "snapshot_without_j2 = \<lparr>name = [''base'', ''j1''], position = [7, 0.05]\<rparr>"


section \<open>Lemmas\<close>

subsection \<open>Index lookup and the tolerance loop\<close>

lemma index_of_None_iff: "index_of xs x = None \<longleftrightarrow> x \<notin> set xs"
  by (induction xs) auto

lemma index_of_Some: "index_of xs x = Some k \<Longrightarrow> k < length xs \<and> xs ! k = x"
  by (induction xs arbitrary: k) (auto split: if_splits)

lemma find_indices_missing:
  "\<not> set js \<subseteq> set names \<Longrightarrow> fst (find_indices names js acc) = Some ValueError"
proof (induction js arbitrary: acc)
  case Nil
  then show ?case by simp
next
  case (Cons j js)
  show ?case
  proof (cases "index_of names j")
    case None
    then show ?thesis by simp
  next
    case (Some k)
    then have "j \<in> set names"
      using index_of_Some [OF Some] nth_mem by blast
    with Cons.prems have "\<not> set js \<subseteq> set names" by simp
    from Cons.IH [OF this] Some show ?thesis by simp
  qed
qed

lemma find_indices_present:
  "set js \<subseteq> set names \<Longrightarrow>
     \<exists>idxs. find_indices names js acc = (None, acc @ idxs) \<and> length idxs = length js \<and>
       (\<forall>i<length js. idxs ! i < length names \<and> names ! (idxs ! i) = js ! i)"
proof (induction js arbitrary: acc)
  case Nil
  then show ?case by simp
next
  case (Cons j js)
  then obtain k where k: "index_of names j = Some k"
    by (cases "index_of names j") (auto simp: index_of_None_iff)
  from Cons.prems have "set js \<subseteq> set names" by simp
  from Cons.IH [OF this, of "acc @ [k]"] obtain idxs where
    r: "find_indices names js (acc @ [k]) = (None, (acc @ [k]) @ idxs)"
    and l: "length idxs = length js"
    and p: "\<forall>i<length js. idxs ! i < length names \<and> names ! (idxs ! i) = js ! i"
    by blast
  have "\<forall>i<length (j # js). (k # idxs) ! i < length names \<and> names ! ((k # idxs) ! i) = (j # js) ! i"
    using p index_of_Some [OF k] by (auto simp: nth_Cons split: nat.splits)
  with r l k show ?case
    by (intro exI [of _ "k # idxs"]) simp
qed

lemma find_indices_None_length:
  "find_indices names js acc = (None, idxs) \<Longrightarrow> length idxs = length acc + length js"
  by (induction js arbitrary: acc) (auto split: option.splits)

lemma check_joints_result:
  "check_joints pos opn tol i ks = Inr b \<Longrightarrow>
     b = (\<not> (\<exists>n<length ks. \<bar>pos ! (ks ! n) - opn ! (i + n)\<bar> > tol ! (i + n)))"
proof (induction ks arbitrary: i)
  case Nil
  then show ?case by simp
next
  case (Cons k ks)
  show ?case
  proof (cases "\<bar>pos ! k - opn ! i\<bar> > tol ! i")
    case True
    with Cons.prems have "b = False" by (simp split: if_splits)
    moreover from True have "\<exists>n<length (k # ks). \<bar>pos ! ((k # ks) ! n) - opn ! (i + n)\<bar> > tol ! (i + n)"
      by (intro exI [of _ 0]) simp
    ultimately show ?thesis by simp
  next
    case False
    with Cons.prems have "check_joints pos opn tol (Suc i) ks = Inr b"
      by (simp split: if_splits)
    from Cons.IH [OF this]
    have b: "b = (\<not> (\<exists>n<length ks. \<bar>pos ! (ks ! n) - opn ! (Suc i + n)\<bar> > tol ! (Suc i + n)))" .
    have "(\<exists>n<length (k # ks). \<bar>pos ! ((k # ks) ! n) - opn ! (i + n)\<bar> > tol ! (i + n))
        \<longleftrightarrow> (\<exists>n<length ks. \<bar>pos ! (ks ! n) - opn ! (Suc i + n)\<bar> > tol ! (Suc i + n))"
      using False by (simp add: Ex_less_Suc2)
    with b show ?thesis by simp
  qed
qed

lemma check_joints_total:
  "\<forall>k\<in>set ks. k < length pos \<Longrightarrow> i + length ks \<le> length opn \<Longrightarrow> i + length ks \<le> length tol
     \<Longrightarrow> \<exists>b. check_joints pos opn tol i ks = Inr b"
  by (induction ks arbitrary: i) auto

subsection \<open>The duration split\<close>




subsection \<open>The classifier\<close>

lemma is_open_no_snapshot: "joint_state s = None \<Longrightarrow> is_open s = (Inr True, s)"
  by (simp add: is_open_def)

lemma is_open_first_lookup:
  assumes "joint_state s = Some js" "gripper_joint_indices s = None"
    "find_indices (name js) (joint_names s) [] = (e, idxs)"
  shows "is_open s =
     (case e of
        Some err \<Rightarrow> Inl err
      | None \<Rightarrow> check_joints (position js) (open_gripper_joint_positions s) (open_tolerance s) 0 idxs,
      s\<lparr>gripper_joint_indices := Some idxs\<rparr>)"
  using assms by (simp add: is_open_def split: option.splits)

lemma is_open_cached:
  assumes "joint_state s = Some js" "gripper_joint_indices s = Some idxs"
  shows "is_open s =
     (check_joints (position js) (open_gripper_joint_positions s) (open_tolerance s) 0 idxs, s)"
  using assms by (simp add: is_open_def)

text \<open>The classifier writes nothing but the cached indices.\<close>

lemma is_open_frame:
  "snd (is_open s) = s\<lparr>gripper_joint_indices := gripper_joint_indices (snd (is_open s))\<rparr>"
  by (simp add: is_open_def split: option.splits prod.splits)

lemma is_open_result:
  assumes "indices_complete s" "joint_state s = Some js" "is_open s = (Inr b, s')"
  shows "\<exists>index. gripper_joint_indices s' = Some index
           \<and> length index = length (joint_names s)
           \<and> b = (\<not> (\<exists>i<length (joint_names s).
                  \<bar>position js ! (index ! i) - open_gripper_joint_positions s ! i\<bar>
                    > open_tolerance s ! i))"
proof (cases "gripper_joint_indices s")
  case None
  obtain e idxs where f: "find_indices (name js) (joint_names s) [] = (e, idxs)"
    by (cases "find_indices (name js) (joint_names s) []")
  from is_open_first_lookup [OF assms(2) None f] assms(3)
  have e: "e = None"
    and c: "check_joints (position js) (open_gripper_joint_positions s) (open_tolerance s) 0 idxs = Inr b"
    and s': "s' = s\<lparr>gripper_joint_indices := Some idxs\<rparr>"
    by (auto split: option.splits)
  from f e have len: "length idxs = length (joint_names s)"
    using find_indices_None_length by fastforce
  from check_joints_result [OF c] len s' show ?thesis by simp
next
  case (Some idxs)
  from is_open_cached [OF assms(2) Some] assms(3)
  have c: "check_joints (position js) (open_gripper_joint_positions s) (open_tolerance s) 0 idxs = Inr b"
    and s': "s' = s" by simp_all
  from assms(1) Some have len: "length idxs = length (joint_names s)"
    by (simp add: indices_complete_def)
  from check_joints_result [OF c] len s' Some show ?thesis by simp
qed

lemma is_open_total:
  assumes "consistent s" "indices_complete s" "joint_state s = Some js" "snapshot_readable s js"
  shows "\<exists>b. fst (is_open s) = Inr b"
proof (cases "gripper_joint_indices s")
  case None
  with assms(4) have sub: "set (joint_names s) \<subseteq> set (name js)"
    and par: "length (name js) \<le> length (position js)"
    by (simp_all add: snapshot_readable_def)
  from find_indices_present [OF sub, of "[]"] obtain idxs where
    f: "find_indices (name js) (joint_names s) [] = (None, idxs)"
    and len: "length idxs = length (joint_names s)"
    and rng: "\<forall>i<length (joint_names s). idxs ! i < length (name js)"
    by auto
  from rng len par have "\<forall>k\<in>set idxs. k < length (position js)"
    by (fastforce simp: in_set_conv_nth)
  from check_joints_total [OF this, of 0 "open_gripper_joint_positions s" "open_tolerance s"]
    assms(1) len
  obtain b where "check_joints (position js) (open_gripper_joint_positions s) (open_tolerance s) 0 idxs = Inr b"
    by (auto simp: consistent_def)
  with is_open_first_lookup [OF assms(3) None f] show ?thesis by simp
next
  case (Some idxs)
  with assms(4) have "\<forall>k\<in>set idxs. k < length (position js)"
    by (simp add: snapshot_readable_def list_all_iff)
  from check_joints_total [OF this, of 0 "open_gripper_joint_positions s" "open_tolerance s"]
    assms(1,2) Some
  obtain b where "check_joints (position js) (open_gripper_joint_positions s) (open_tolerance s) 0 idxs = Inr b"
    by (auto simp: consistent_def indices_complete_def)
  with is_open_cached [OF assms(3) Some] show ?thesis by simp
qed


subsection \<open>What the classifier leaves unchanged\<close>

lemma is_open_fields:
  "joint_names (snd (is_open s)) = joint_names s"
  "joint_state (snd (is_open s)) = joint_state s"
  "group_name (snd (is_open s)) = group_name s"
  "ignore_new_calls_while_executing (snd (is_open s)) = ignore_new_calls_while_executing s"
  "execution_state (snd (is_open s)) = execution_state s"
  "dispatched (snd (is_open s)) = dispatched s"
  "resets (snd (is_open s)) = resets s"
  "open_gripper_joint_positions (snd (is_open s)) = open_gripper_joint_positions s"
  "closed_gripper_joint_positions (snd (is_open s)) = closed_gripper_joint_positions s"
  "skip_planning (snd (is_open s)) = skip_planning s"
  "open_dummy_trajectory_goal (snd (is_open s)) = open_dummy_trajectory_goal s"
  "close_dummy_trajectory_goal (snd (is_open s)) = close_dummy_trajectory_goal s"
  "open_tolerance (snd (is_open s)) = open_tolerance s"
  by (subst is_open_frame, simp)+

lemma is_open_attributes:
  "redundant_attributes_are_None (snd (is_open s)) = redundant_attributes_are_None s"
  by (subst is_open_frame) (simp add: redundant_attributes_are_None_def)

lemma is_open_consistent: "consistent (snd (is_open s)) = consistent s"
  by (simp add: consistent_def is_open_fields)




subsection \<open>The gate and the dispatcher\<close>






lemma open_gripper_skip:
  "open_gripper True s =
     (case fst (is_open s) of
        Inl e \<Rightarrow> (Some e, snd (is_open s))
      | Inr b \<Rightarrow> if b then (None, snd (is_open s)) else perform_open (snd (is_open s)))"
  by (cases "is_open s"; cases "fst (is_open s)") (auto simp: open_gripper_def)

lemma close_gripper_skip:
  "close_gripper True s =
     (case fst (is_open s) of
        Inl e \<Rightarrow> (Some e, snd (is_open s))
      | Inr b \<Rightarrow> if b then perform_close (snd (is_open s)) else (None, snd (is_open s)))"
  by (cases "is_open s"; cases "fst (is_open s)") (auto simp: close_gripper_def is_closed_def)

lemma toggle_cases:
  "toggle s =
     (case fst (is_open s) of
        Inl e \<Rightarrow> (Some e, snd (is_open s))
      | Inr b \<Rightarrow> if b then perform_close (snd (is_open s)) else perform_open (snd (is_open s)))"
  by (cases "is_open s"; cases "fst (is_open s)")
    (auto simp: toggle_def open_gripper_def close_gripper_def)



subsection \<open>The nulled attributes\<close>

lemma dispatch_attributes:
  "redundant_attributes_are_None (dispatch g s) = redundant_attributes_are_None s"
  by (simp add: dispatch_def redundant_attributes_are_None_def)

lemma perform_attributes:
  "redundant_attributes_are_None (snd (perform_open s)) = redundant_attributes_are_None s"
  "redundant_attributes_are_None (snd (perform_close s)) = redundant_attributes_are_None s"
  by (auto simp: perform_open_def perform_close_def open_without_planning_def
      close_without_planning_def send_goal_async_follow_joint_trajectory_def
      move_to_configuration_def dispatch_attributes split: option.splits sum.splits)

lemma open_gripper_attributes:
  "redundant_attributes_are_None (snd (open_gripper b s)) = redundant_attributes_are_None s"
proof (cases b)
  case True
  then show ?thesis
    by (simp add: open_gripper_skip perform_attributes is_open_attributes split: sum.splits)
next
  case False
  then show ?thesis by (simp add: open_gripper_def perform_attributes)
qed

lemma close_gripper_attributes:
  "redundant_attributes_are_None (snd (close_gripper b s)) = redundant_attributes_are_None s"
proof (cases b)
  case True
  then show ?thesis
    by (simp add: close_gripper_skip perform_attributes is_open_attributes split: sum.splits)
next
  case False
  then show ?thesis by (simp add: close_gripper_def perform_attributes)
qed

lemma toggle_attributes:
  "redundant_attributes_are_None (snd (toggle s)) = redundant_attributes_are_None s"
  by (simp add: toggle_cases perform_attributes is_open_attributes split: sum.splits)

lemma reset_attributes:
  "redundant_attributes_are_None (snd (reset_open sync s)) = redundant_attributes_are_None s"
  "redundant_attributes_are_None (snd (reset_closed sync s)) = redundant_attributes_are_None s"
  by (simp_all add: reset_open_def reset_closed_def reset_controller_def
      redundant_attributes_are_None_def)

lemma run_command_attributes:
  "redundant_attributes_are_None (snd (run_command c s)) = redundant_attributes_are_None s"
  by (cases c)
    (simp_all add: open_gripper_attributes close_gripper_attributes toggle_attributes call_def
      reset_attributes)

lemma step_attributes:
  "redundant_attributes_are_None (step e s) = redundant_attributes_are_None s"
proof (cases e)
  case (Invoke c)
  then show ?thesis by (simp add: run_command_attributes)
next
  case (Snapshot msg)
  then show ?thesis by (simp add: joint_state_callback_def redundant_attributes_are_None_def)
next
  case (Backend ev)
  then show ?thesis
    by (cases ev; cases "execution_state s")
      (simp_all add: on_backend_event_def redundant_attributes_are_None_def)
qed

lemma run_attributes:
  "redundant_attributes_are_None (run es s) = redundant_attributes_are_None s"
  by (induction es arbitrary: s) (simp_all add: step_attributes)

lemma init_attributes:
  "init names opn cls grp ign skp d = Inr s \<Longrightarrow> redundant_attributes_are_None s"
  by (auto simp: init_def Let_def del_redundant_attributes_def redundant_attributes_are_None_def
      split: if_splits)

subsection \<open>What the constructor establishes and the events keep\<close>

lemma init_consistent:
  "init names opn cls grp ign skp d = Inr s \<Longrightarrow> consistent s \<and> indices_complete s"
  by (auto simp: init_def Let_def consistent_def indices_complete_def MoveIt2_init_def
      del_redundant_attributes_def split: if_splits)

lemma dispatch_consistent: "consistent (dispatch g s) = consistent s"
  by (simp add: dispatch_def consistent_def)

lemma perform_consistent:
  "consistent (snd (perform_open s)) = consistent s"
  "consistent (snd (perform_close s)) = consistent s"
  by (auto simp: perform_open_def perform_close_def open_without_planning_def
      close_without_planning_def send_goal_async_follow_joint_trajectory_def
      move_to_configuration_def dispatch_consistent split: option.splits sum.splits)

lemma open_gripper_consistent: "consistent (snd (open_gripper b s)) = consistent s"
proof (cases b)
  case True
  then show ?thesis
    by (simp add: open_gripper_skip perform_consistent is_open_consistent split: sum.splits)
next
  case False
  then show ?thesis by (simp add: open_gripper_def perform_consistent)
qed

lemma close_gripper_consistent: "consistent (snd (close_gripper b s)) = consistent s"
proof (cases b)
  case True
  then show ?thesis
    by (simp add: close_gripper_skip perform_consistent is_open_consistent split: sum.splits)
next
  case False
  then show ?thesis by (simp add: close_gripper_def perform_consistent)
qed

lemma toggle_consistent: "consistent (snd (toggle s)) = consistent s"
  by (simp add: toggle_cases perform_consistent is_open_consistent split: sum.splits)

lemma reset_consistent:
  "consistent (snd (reset_open sync s)) = consistent s"
  "consistent (snd (reset_closed sync s)) = consistent s"
  by (simp_all add: reset_open_def reset_closed_def reset_controller_def consistent_def)

lemma run_command_consistent: "consistent (snd (run_command c s)) = consistent s"
  by (cases c)
    (simp_all add: open_gripper_consistent close_gripper_consistent toggle_consistent call_def
      reset_consistent)

lemma step_consistent: "consistent (step e s) = consistent s"
proof (cases e)
  case (Invoke c)
  then show ?thesis by (simp add: run_command_consistent)
next
  case (Snapshot msg)
  then show ?thesis by (simp add: joint_state_callback_def consistent_def)
next
  case (Backend ev)
  then show ?thesis
    by (cases ev; cases "execution_state s") (simp_all add: on_backend_event_def consistent_def)
qed

lemma run_consistent: "consistent (run es s) = consistent s"
  by (induction es arbitrary: s) (simp_all add: step_consistent)

lemma is_open_indices_complete:
  assumes "indices_complete s" "fst (is_open s) = Inr b"
  shows "indices_complete (snd (is_open s))"
proof (cases "joint_state s")
  case None
  with assms(1) show ?thesis by (simp add: is_open_no_snapshot)
next
  case (Some js)
  from assms(2) have "is_open s = (Inr b, snd (is_open s))" by (cases "is_open s") simp
  from is_open_result [OF assms(1) Some this] show ?thesis
    by (auto simp: indices_complete_def is_open_fields)
qed

subsection \<open>The example objects\<close>

lemma two_joint_gripper_init:
  "init [''j1'', ''j2''] [0, 0] [1, 2] ''LHand'' False False 0.5 = Inr two_joint_gripper"
  by (simp add: init_def Let_def MoveIt2_init_def del_redundant_attributes_def two_joint_gripper_def)

lemmas example_defs = two_joint_gripper_def snapshot_open_def snapshot_closed_def
  snapshot_without_j2_def joint_state_callback_def

section \<open>Claims\<close>



text \<open>
  C2. Construction succeeds only when the joint names, the open positions and the closed
  positions have the same length; any mismatch raises \<open>ValueError\<close> and no object is
  constructed.
\<close>

theorem init_length_validation:
  "(\<forall>s. init names opn cls grp ign skp d = Inr s \<longrightarrow>
        length names = length opn \<and> length opn = length cls)
   \<and> (\<not> (length names = length opn \<and> length opn = length cls) \<longrightarrow>
        init names opn cls grp ign skp d = Inl ValueError)"
  by (auto simp: init_def Let_def)

theorem init_length_validation_witness:
  "init [''j1''] [0] [1, 2] ''LHand'' False False 0.5 = Inl ValueError
   \<and> init [''j1'', ''j2''] [0] [1] ''LHand'' False True 0.5 = Inl ValueError
   \<and> (\<exists>s. init [''j1''] [0] [1] ''LHand'' False False 0.5 = Inr s)
   \<and> length [''j1''] = length [0::real] \<and> length [0::real] = length [1::real]"
  using init_length_validation [of "[''j1'']" "[0]" "[1, 2]" "''LHand''" False False "0.5"]
    init_length_validation [of "[''j1'', ''j2'']" "[0]" "[1]" "''LHand''" False True "0.5"]
    init_length_validation [of "[''j1'']" "[0]" "[1]" "''LHand''" False False "0.5"]
  by (simp add: init_def Let_def)



text \<open>
  C4. In every state, \<open>is_closed\<close> returns exactly the negation of what \<open>is_open\<close>
  returns, and raises exactly when \<open>is_open\<close> raises; without a snapshot \<open>is_open\<close> is
  true and \<open>is_closed\<close> is false. Read one after the other on the state the first read
  leaves, the two properties are again each other's negation.
\<close>

theorem is_closed_negation:
  "(is_closed s = (Inr b, s') \<longleftrightarrow> is_open s = (Inr (\<not> b), s'))
   \<and> (is_closed s = (Inl e, s') \<longleftrightarrow> is_open s = (Inl e, s'))
   \<and> (joint_state s = None \<longrightarrow> is_open s = (Inr True, s) \<and> is_closed s = (Inr False, s))
   \<and> (is_open s = (Inr b, s') \<longrightarrow> is_open s' = (Inr b, s') \<and> is_closed s' = (Inr (\<not> b), s'))"
proof (intro conjI impI)
  show "is_closed s = (Inr b, s') \<longleftrightarrow> is_open s = (Inr (\<not> b), s')"
    by (cases "is_open s"; cases "fst (is_open s)") (auto simp: is_closed_def)
  show "is_closed s = (Inl e, s') \<longleftrightarrow> is_open s = (Inl e, s')"
    by (cases "is_open s"; cases "fst (is_open s)") (auto simp: is_closed_def)
  show "is_open s = (Inr True, s)" if "joint_state s = None"
    using that by (rule is_open_no_snapshot)
  show "is_closed s = (Inr False, s)" if "joint_state s = None"
    using is_open_no_snapshot [OF that] by (simp add: is_closed_def)
  assume r: "is_open s = (Inr b, s')"
  show again: "is_open s' = (Inr b, s')"
  proof (cases "joint_state s")
    case None
    with r show ?thesis by (simp add: is_open_def)
  next
    case (Some js)
    show ?thesis
    proof (cases "gripper_joint_indices s")
      case None
      obtain e idxs where f: "find_indices (name js) (joint_names s) [] = (e, idxs)"
        by (cases "find_indices (name js) (joint_names s) []")
      from is_open_first_lookup [OF Some None f] r
      have c: "check_joints (position js) (open_gripper_joint_positions s) (open_tolerance s) 0 idxs = Inr b"
        and s': "s' = s\<lparr>gripper_joint_indices := Some idxs\<rparr>"
        by (auto split: option.splits)
      from s' Some have "joint_state s' = Some js" "gripper_joint_indices s' = Some idxs"
        by simp_all
      from is_open_cached [OF this] c s' show ?thesis by simp
    next
      case (Some idxs)
      with r \<open>joint_state s = Some js\<close> show ?thesis by (auto simp: is_open_def)
    qed
  qed
  then show "is_closed s' = (Inr (\<not> b), s')" by (simp add: is_closed_def)
qed

theorem is_closed_negation_witness:
  "is_open two_joint_gripper = (Inr True, two_joint_gripper)
   \<and> is_closed two_joint_gripper = (Inr False, two_joint_gripper)
   \<and> is_closed (joint_state_callback snapshot_closed two_joint_gripper)
       = (Inr True, joint_state_callback snapshot_closed two_joint_gripper
                      \<lparr>gripper_joint_indices := Some [2, 1]\<rparr>)
   \<and> is_closed (joint_state_callback snapshot_closed two_joint_gripper
                      \<lparr>gripper_joint_indices := Some [2, 1]\<rparr>)
       = (Inr True, joint_state_callback snapshot_closed two_joint_gripper
                      \<lparr>gripper_joint_indices := Some [2, 1]\<rparr>)"
proof -
  let ?s = "joint_state_callback snapshot_closed two_joint_gripper"
  let ?s' = "?s\<lparr>gripper_joint_indices := Some [2, 1]\<rparr>"
  have none: "joint_state two_joint_gripper = None" by (simp add: example_defs)
  have run: "is_open ?s = (Inr (\<not> True), ?s')" by (simp add: is_open_def example_defs)
  from is_closed_negation [of two_joint_gripper] none
  have a: "is_open two_joint_gripper = (Inr True, two_joint_gripper)
        \<and> is_closed two_joint_gripper = (Inr False, two_joint_gripper)" by blast
  from is_closed_negation [of ?s True ?s'] run
  have b: "is_closed ?s = (Inr True, ?s')" by blast
  from run have "is_open ?s = (Inr False, ?s')" by simp
  with is_closed_negation [of ?s False ?s']
  have c: "is_closed ?s' = (Inr True, ?s')" by simp
  from a b c show ?thesis by blast
qed









text \<open>
  C9. On the first call of \<open>is_open\<close> that sees a snapshot, the index of every
  configured joint name is looked up in the snapshot's names. A configured name that does
  not occur there makes the call raise \<open>ValueError\<close> instead of returning a
  classification. When every configured name occurs, the lookup does not raise and the
  cached index of each joint points at its name; with positions parallel to the names
  the call returns a classification.
\<close>

theorem first_lookup_precondition:
  assumes "joint_state s = Some js" and "gripper_joint_indices s = None"
  shows "(\<not> set (joint_names s) \<subseteq> set (name js) \<longrightarrow> fst (is_open s) = Inl ValueError)
   \<and> (set (joint_names s) \<subseteq> set (name js) \<longrightarrow>
        fst (is_open s) \<noteq> Inl ValueError
      \<and> (\<exists>index. gripper_joint_indices (snd (is_open s)) = Some index
            \<and> length index = length (joint_names s)
            \<and> (\<forall>i<length (joint_names s).
                  index ! i < length (name js) \<and> name js ! (index ! i) = joint_names s ! i)))
   \<and> (set (joint_names s) \<subseteq> set (name js) \<and> length (name js) \<le> length (position js)
        \<and> consistent s \<longrightarrow> (\<exists>b. fst (is_open s) = Inr b))"
proof (intro conjI impI)
  assume "\<not> set (joint_names s) \<subseteq> set (name js)"
  from find_indices_missing [OF this, of "[]"] obtain idxs where
    "find_indices (name js) (joint_names s) [] = (Some ValueError, idxs)"
    by (cases "find_indices (name js) (joint_names s) []") auto
  from is_open_first_lookup [OF assms this] show "fst (is_open s) = Inl ValueError" by simp
next
  assume sub: "set (joint_names s) \<subseteq> set (name js)"
  from find_indices_present [OF sub, of "[]"] obtain idxs where
    f: "find_indices (name js) (joint_names s) [] = (None, idxs)"
    and len: "length idxs = length (joint_names s)"
    and rng: "\<forall>i<length (joint_names s). idxs ! i < length (name js) \<and> name js ! (idxs ! i) = joint_names s ! i"
    by auto
  note r = is_open_first_lookup [OF assms f]
  have "check_joints pos opn tol i ks \<noteq> Inl ValueError" for pos opn tol i ks
    by (induction ks arbitrary: i) auto
  with r show "fst (is_open s) \<noteq> Inl ValueError" by simp
  from r len rng show "\<exists>index. gripper_joint_indices (snd (is_open s)) = Some index
            \<and> length index = length (joint_names s)
            \<and> (\<forall>i<length (joint_names s).
                  index ! i < length (name js) \<and> name js ! (index ! i) = joint_names s ! i)"
    by simp
next
  assume a: "set (joint_names s) \<subseteq> set (name js) \<and> length (name js) \<le> length (position js)
        \<and> consistent s"
  with assms have "snapshot_readable s js" "indices_complete s"
    by (simp_all add: snapshot_readable_def indices_complete_def)
  with a assms show "\<exists>b. fst (is_open s) = Inr b" using is_open_total by blast
qed

theorem first_lookup_precondition_witness:
  "fst (is_open (joint_state_callback snapshot_without_j2 two_joint_gripper)) = Inl ValueError
   \<and> fst (is_open (joint_state_callback snapshot_open two_joint_gripper)) = Inr True
   \<and> gripper_joint_indices (snd (is_open (joint_state_callback snapshot_open two_joint_gripper)))
       = Some [2, 1]"
proof -
  let ?s = "joint_state_callback snapshot_without_j2 two_joint_gripper"
  let ?t = "joint_state_callback snapshot_open two_joint_gripper"
  have s: "joint_state ?s = Some snapshot_without_j2" "gripper_joint_indices ?s = None"
    "\<not> set (joint_names ?s) \<subseteq> set (name snapshot_without_j2)"
    by (simp_all add: example_defs)
  have t: "joint_state ?t = Some snapshot_open" "gripper_joint_indices ?t = None"
    "set (joint_names ?t) \<subseteq> set (name snapshot_open)"
    "length (name snapshot_open) \<le> length (position snapshot_open)" "consistent ?t"
    by (simp_all add: example_defs consistent_def)
  from first_lookup_precondition [OF s(1,2)] s(3)
  have a: "fst (is_open ?s) = Inl ValueError" by blast
  from first_lookup_precondition [OF t(1,2)] t(3-5)
  have "\<exists>b. fst (is_open ?t) = Inr b" by blast
  moreover have "is_open ?t = (Inr True, ?t\<lparr>gripper_joint_indices := Some [2, 1]\<rparr>)"
    by (simp add: is_open_def example_defs)
  ultimately show ?thesis using a by simp
qed

text \<open>
  C10. Right after construction the attributes \<open>move_to_pose\<close>, \<open>set_pose_goal\<close>,
  \<open>set_position_goal\<close>, \<open>set_orientation_goal\<close>, \<open>compute_fk\<close> and \<open>compute_ik\<close> are all
  \<open>None\<close>. No public operation of the gripper restores any of them, and they stay
  \<open>None\<close> through every sequence of operations, snapshots and backend reports.
\<close>

theorem redundant_attributes_stay_None:
  assumes "init names opn cls grp ign skp d = Inr s"
  shows "redundant_attributes_are_None s
       \<and> (\<forall>c. redundant_attributes_are_None (snd (run_command c s)))
       \<and> (\<forall>events. redundant_attributes_are_None (run events s))"
  using init_attributes [OF assms] by (simp add: run_command_attributes run_attributes)

theorem redundant_attributes_stay_None_witness:
  "move_to_pose two_joint_gripper = PyNone
   \<and> compute_ik (snd (run_command Toggle two_joint_gripper)) = PyNone
   \<and> redundant_attributes_are_None
       (run [Invoke Toggle, Backend Accept, Snapshot snapshot_closed, Invoke (Open True),
             Backend Success, Invoke (ResetClosed True), Invoke Call] two_joint_gripper)"
proof -
  note t = redundant_attributes_stay_None [OF two_joint_gripper_init]
  from t have "redundant_attributes_are_None two_joint_gripper"
    and "redundant_attributes_are_None (snd (run_command Toggle two_joint_gripper))"
    and "redundant_attributes_are_None
       (run [Invoke Toggle, Backend Accept, Snapshot snapshot_closed, Invoke (Open True),
             Backend Success, Invoke (ResetClosed True), Invoke Call] two_joint_gripper)"
    by blast+
  then show ?thesis by (simp add: redundant_attributes_are_None_def)
qed

end
